theory Spec2Isabelle
  imports Complex_Main "HOL-Library.Multiset" "HOL-Library.AList"
begin

section \<open>The device-local counter store (src/lib/rate-limit.ts)\<close>

text \<open>
  The Quota Enforcer keeps three keys in \<^verbatim>\<open>localStorage\<close>:
  \<^verbatim>\<open>sg_likes\<close> (an object from post id to count), \<^verbatim>\<open>sg_post_times\<close> (an array of
  timestamps) and \<^verbatim>\<open>sg_last_fetch\<close> (one timestamp). A key is either absent
  (\<open>None\<close>: \<^verbatim>\<open>getJSON\<close> returns its fallback) or holds the JSON value that
  \<^verbatim>\<open>setJSON\<close> wrote. Timestamps are the integer milliseconds of \<^verbatim>\<open>Date.now()\<close>.
  Every function that reads the clock takes the value read as an argument.
  The like object is modelled as a finite map; post ids are database keys and the
  inherited properties of a JavaScript object are not modelled.
\<close>

record store =
  sg_likes :: "(string \<rightharpoonup> int) option"
  sg_post_times :: "int list option"
  sg_last_fetch :: "int option"

definition empty_store :: store where
  "empty_store = \<lparr>sg_likes = None, sg_post_times = None, sg_last_fetch = None\<rparr>"

definition LIKE_LIMIT_PER_POST :: int where
  "LIKE_LIMIT_PER_POST = 5"

definition POST_LIMIT :: nat where
  "POST_LIMIT = 3"

definition POST_WINDOW_MS :: int where
  "POST_WINDOW_MS = 10 * 60 * 1000"

definition FETCH_COOLDOWN_MS :: int where
  "FETCH_COOLDOWN_MS = 3000"

text \<open>\<^verbatim>\<open>getJSON(key, fallback)\<close>, one instance per key.\<close>

definition getJSON_likes :: "store \<Rightarrow> (string \<rightharpoonup> int)" where
  "getJSON_likes s = (case sg_likes s of None \<Rightarrow> Map.empty | Some likes \<Rightarrow> likes)"

definition getJSON_posts :: "store \<Rightarrow> int list" where
  "getJSON_posts s = (case sg_post_times s of None \<Rightarrow> [] | Some ts \<Rightarrow> ts)"

definition getJSON_last_fetch :: "store \<Rightarrow> int" where
  "getJSON_last_fetch s = (case sg_last_fetch s of None \<Rightarrow> 0 | Some t \<Rightarrow> t)"

subsection \<open>Likes\<close>

definition getLikesGiven :: "store \<Rightarrow> string \<Rightarrow> int" where
  "getLikesGiven s postId = (case getJSON_likes s postId of None \<Rightarrow> 0 | Some n \<Rightarrow> n)"

definition remainingLikes :: "store \<Rightarrow> string \<Rightarrow> int" where
  "remainingLikes s postId = max 0 (LIKE_LIMIT_PER_POST - getLikesGiven s postId)"

definition canLikePost :: "store \<Rightarrow> string \<Rightarrow> bool" where
  "canLikePost s postId = (getLikesGiven s postId < LIKE_LIMIT_PER_POST)"

text \<open>\<^verbatim>\<open>recordLike\<close> returns its boolean result and the store it leaves behind.\<close>

definition recordLike :: "store \<Rightarrow> string \<Rightarrow> bool \<times> store" where
  "recordLike s postId =
     (if \<not> canLikePost s postId then (False, s)
      else let likes = getJSON_likes s;
               likes' = likes(postId \<mapsto> (case likes postId of None \<Rightarrow> 0 | Some n \<Rightarrow> n) + 1)
           in (True, s\<lparr>sg_likes := Some likes'\<rparr>))"

text \<open>A sequence of like attempts, each on some post, run from a store.\<close>

fun like_attempts :: "store \<Rightarrow> string list \<Rightarrow> store" where
  "like_attempts s [] = s"
| "like_attempts s (p # ps) = like_attempts (snd (recordLike s p)) ps"

subsection \<open>Posts\<close>

definition getRecentPostTimes :: "int \<Rightarrow> store \<Rightarrow> int list" where
  "getRecentPostTimes now s = filter (\<lambda>t. now - t < POST_WINDOW_MS) (getJSON_posts s)"

record post_status =
  allowed :: bool
  waitSeconds :: int

text \<open>
  \<^verbatim>\<open>canPost\<close> reads the clock twice: \<open>now\<close> inside \<^verbatim>\<open>getRecentPostTimes\<close> and
  \<open>now'\<close> when it computes the wait. \<^verbatim>\<open>Math.min(...recent)\<close> is only reached with at
  least \<open>POST_LIMIT\<close> elements; \<^verbatim>\<open>Math.ceil(waitMs / 1000)\<close> is the ceiling of the
  exact quotient.
\<close>

definition canPost :: "int \<Rightarrow> int \<Rightarrow> store \<Rightarrow> post_status" where
  "canPost now now' s =
     (let recent = getRecentPostTimes now s in
      if length recent < POST_LIMIT then \<lparr>allowed = True, waitSeconds = 0\<rparr>
      else let oldest = min_list recent;
               waitMs = POST_WINDOW_MS - (now' - oldest)
           in \<lparr>allowed = False, waitSeconds = ceiling ((of_int waitMs :: rat) / 1000)\<rparr>)"

definition recordPost :: "int \<Rightarrow> store \<Rightarrow> store" where
  "recordPost now s = s\<lparr>sg_post_times := Some (getRecentPostTimes now s @ [now])\<rparr>"

definition postsRemaining :: "int \<Rightarrow> store \<Rightarrow> int" where
  "postsRemaining now s = max 0 (int POST_LIMIT - int (length (getRecentPostTimes now s)))"

subsection \<open>Sequences of post-creation operations\<close>

text \<open>
  An operation on the post counters is a call of \<^verbatim>\<open>canPost\<close> or of \<^verbatim>\<open>recordPost\<close>,
  with the clock values the call reads. \<^verbatim>\<open>canPost\<close> writes nothing.
\<close>

datatype post_op = CanPost int int | RecordPost int



text \<open>The stored timestamps that fall into the 10-minute window starting at \<open>a\<close>.\<close>

definition in_window :: "int \<Rightarrow> int list \<Rightarrow> int list" where
  "in_window a ts = filter (\<lambda>t. a \<le> t \<and> t < a + POST_WINDOW_MS) ts"

text \<open>
  The calling discipline of \<^verbatim>\<open>handleSubmit\<close> in src/app/create/page.tsx: a
  \<^verbatim>\<open>recordPost\<close> happens only after a \<^verbatim>\<open>canPost\<close> that answered \<open>allowed\<close>, with no
  other \<^verbatim>\<open>recordPost\<close> in between and a clock that did not run backwards. The
  second argument is the time of that pending check, if there is one.
\<close>

fun checked :: "store \<Rightarrow> int option \<Rightarrow> post_op list \<Rightarrow> bool" where
  "checked s g [] = True"
| "checked s g (CanPost now now' # ops) =
     checked s (if allowed (canPost now now' s) then Some now else None) ops"
| "checked s g (RecordPost now # ops) =
     (case g of None \<Rightarrow> False
      | Some t \<Rightarrow> t \<le> now \<and> checked (recordPost now s) None ops)"

text \<open>
  Every timestamp a run of operations has recorded, pruned or not, and the condition
  that the clock values read along the run never decrease.
\<close>

fun recorded :: "post_op list \<Rightarrow> int list" where
  "recorded [] = []"
| "recorded (CanPost now now' # ops) = recorded ops"
| "recorded (RecordPost now # ops) = now # recorded ops"

fun clock_ok :: "int \<Rightarrow> post_op list \<Rightarrow> bool" where
  "clock_ok c [] = True"
| "clock_ok c (CanPost now now' # ops) = (c \<le> now \<and> now \<le> now' \<and> clock_ok now' ops)"
| "clock_ok c (RecordPost now # ops) = (c \<le> now \<and> clock_ok now ops)"

text \<open>
  The evaluation as the specification words it, for comparison with \<open>canPost\<close>:
  discard exactly the timestamps older than \<open>now - W\<close>, then count.
\<close>

definition spec_prune :: "int \<Rightarrow> int list \<Rightarrow> int list" where
  "spec_prune now ts = filter (\<lambda>t. \<not> t < now - POST_WINDOW_MS) ts"

definition spec_canPost :: "int \<Rightarrow> int list \<Rightarrow> post_status" where
  "spec_canPost now ts =
     (let surviving = spec_prune now ts in
      if length surviving < POST_LIMIT then \<lparr>allowed = True, waitSeconds = 0\<rparr>
      else \<lparr>allowed = False,
            waitSeconds = ceiling ((of_int (POST_WINDOW_MS - (now - min_list surviving)) :: rat) / 1000)\<rparr>)"

subsection \<open>Fetch throttle\<close>

definition canFetch :: "int \<Rightarrow> store \<Rightarrow> bool" where
  "canFetch now s = (now - getJSON_last_fetch s \<ge> FETCH_COOLDOWN_MS)"

definition recordFetch :: "int \<Rightarrow> store \<Rightarrow> store" where
  "recordFetch now s = s\<lparr>sg_last_fetch := Some now\<rparr>"

section \<open>The Metrics Aggregator (src/app/admin/dashboard/metrics/page.tsx)\<close>

subsection \<open>Numbers\<close>

text \<open>
  A timestamp is what \<^verbatim>\<open>new Date(e.created_at).getTime()\<close> returns: an integer number
  of milliseconds, or NaN when the string does not parse. \<open>None\<close> stands for NaN.
  Arithmetic propagates NaN and every comparison with NaN is false, as in JavaScript.
  Counts are natural numbers; ratios are exact rationals (the rounding error of IEEE
  doubles is not modelled); \<^verbatim>\<open>Math.round\<close> rounds to the nearest integer, halves up.
\<close>

type_synonym num = "int option"

fun nsub :: "num \<Rightarrow> num \<Rightarrow> num" where
  "nsub (Some a) (Some b) = Some (a - b)"
| "nsub _ _ = None"

fun nadd :: "num \<Rightarrow> num \<Rightarrow> num" where
  "nadd (Some a) (Some b) = Some (a + b)"
| "nadd _ _ = None"

fun nlt :: "num \<Rightarrow> num \<Rightarrow> bool" where
  "nlt (Some a) (Some b) = (a < b)"
| "nlt _ _ = False"

fun nge :: "num \<Rightarrow> num \<Rightarrow> bool" where
  "nge (Some a) (Some b) = (a \<ge> b)"
| "nge _ _ = False"

fun ngt :: "num \<Rightarrow> num \<Rightarrow> bool" where
  "ngt (Some a) (Some b) = (a > b)"
| "ngt _ _ = False"

definition Math_round :: "rat \<Rightarrow> int" where
  "Math_round x = floor (x + 1 / 2)"

text \<open>\<^verbatim>\<open>Math.round(x * 10) / 10\<close> and \<^verbatim>\<open>Math.round(x * 100) / 100\<close>.\<close>

definition round1 :: "rat \<Rightarrow> rat" where
  "round1 x = of_int (Math_round (x * 10)) / 10"

definition round2 :: "rat \<Rightarrow> rat" where
  "round2 x = of_int (Math_round (x * 100)) / 100"

subsection \<open>Rows and the snapshot\<close>

text \<open>
  \<open>created_at\<close> holds the parsed timestamp of the row. \<open>likes\<close> of a post row may be
  null (\<^verbatim>\<open>p.likes ?? 0\<close>).
\<close>

record RawEvent =
  event_id :: string
  event_name :: string
  user_pseudo_id :: "string option"
  created_at :: num

record RawFeedback =
  rating :: string

record RawPost =
  likes :: "int option"

record Metrics =
  uniqueVisits :: nat
  activationRate :: rat
  activationGoalMet :: bool
  totalQrScans :: nat
  dau :: nat
  totalPosts :: nat
  totalLikes :: int
  totalShares :: nat
  engagementRate :: rat
  avgSessionLengthMin :: "rat option"
  churnRate :: rat
  day1Retention :: rat
  viralCoefficient :: rat
  npsScore :: int
  npsThresholdMet :: bool
  happyCount :: nat
  normalCount :: nat
  sadCount :: nat
  totalFeedback :: nat

definition MS_24H :: int where "MS_24H = 24 * 60 * 60 * 1000"
definition MS_48H :: int where "MS_48H = 48 * 60 * 60 * 1000"
definition MS_7D :: int where "MS_7D = 7 * 24 * 60 * 60 * 1000"
definition MS_8D :: int where "MS_8D = 8 * 24 * 60 * 60 * 1000"
definition SESSION_GAP :: int where "SESSION_GAP = 30 * 60 * 1000"

subsection \<open>Identities\<close>

text \<open>
  \<^verbatim>\<open>.filter(Boolean)\<close> and \<^verbatim>\<open>if (!uid) continue\<close> drop null and the empty string.
  A \<^verbatim>\<open>Set\<close> built from an array is the list without its duplicates: only its size
  and membership are ever used, so the order kept does not matter.
\<close>

definition truthy :: "string option \<Rightarrow> bool" where
  "truthy u = (case u of None \<Rightarrow> False | Some s \<Rightarrow> s \<noteq> [])"

definition new_Set :: "'a list \<Rightarrow> 'a list" where
  "new_Set xs = remdups xs"

definition users_of :: "RawEvent list \<Rightarrow> string option list" where
  "users_of es = new_Set (filter truthy (map user_pseudo_id es))"

definition allUsers :: "RawEvent list \<Rightarrow> string option list" where
  "allUsers events = users_of events"

definition activatedUsers :: "RawEvent list \<Rightarrow> string option list" where
  "activatedUsers events = users_of (filter (\<lambda>e. event_name e = ''post_created'') events)"

definition in_last_24h :: "int \<Rightarrow> RawEvent \<Rightarrow> bool" where
  "in_last_24h now e = nlt (nsub (Some now) (created_at e)) (Some MS_24H)"

definition activeLast24h :: "int \<Rightarrow> RawEvent list \<Rightarrow> string option list" where
  "activeLast24h now events = users_of (filter (in_last_24h now) events)"

subsection \<open>Average session length\<close>

text \<open>
  \<open>byUser\<close> is the object from identity to the array of that identity's timestamps,
  kept as an association list in insertion order. The \<^verbatim>\<open>for ... in\<close> loop visits each
  key once; it only adds to the two accumulators. Identities are the UUID strings of
  src/lib/identity.ts; an identity that names an inherited property of a JavaScript
  object is not modelled.
\<close>

definition byUser_step :: "RawEvent \<Rightarrow> (string \<times> num list) list \<Rightarrow> (string \<times> num list) list" where
  "byUser_step e byUser =
     (case user_pseudo_id e of
        None \<Rightarrow> byUser
      | Some uid \<Rightarrow>
          if uid = [] then byUser
          else let cur = (case map_of byUser uid of None \<Rightarrow> [] | Some ts \<Rightarrow> ts)
               in AList.update uid (cur @ [created_at e]) byUser)"

definition byUser :: "RawEvent list \<Rightarrow> (string \<times> num list) list" where
  "byUser events = fold byUser_step events []"

text \<open>
  \<^verbatim>\<open>times.sort((a, b) => a - b)\<close>. A comparator result of NaN counts as \<open>+0\<close>
  (ECMAScript SortCompare). On an array without NaN every conforming sort returns the
  ascending array. With a NaN in the array the comparator is inconsistent and the order is
  left to the implementation; the model takes a stable insertion sort, which moves an
  element only in front of elements it compares smaller than.
\<close>

definition sort_compare :: "num \<Rightarrow> num \<Rightarrow> int" where
  "sort_compare a b = (case nsub a b of None \<Rightarrow> 0 | Some v \<Rightarrow> v)"

fun js_insert :: "num \<Rightarrow> num list \<Rightarrow> num list" where
  "js_insert x [] = [x]"
| "js_insert x (y # ys) = (if sort_compare x y < 0 then x # y # ys else y # js_insert x ys)"

definition js_sort :: "num list \<Rightarrow> num list" where
  "js_sort xs = fold js_insert xs []"

text \<open>
  The inner loop over \<open>times[1..]\<close>, with the two running variables and the two
  accumulators; its last equation is the closing of the trailing session after the loop.
\<close>

fun session_loop :: "num list \<Rightarrow> num \<Rightarrow> num \<Rightarrow> num \<times> nat \<Rightarrow> num \<times> nat" where
  "session_loop [] sessionStart lastEvent (totalSessionMs, sessionCount) =
     (nadd totalSessionMs (nsub lastEvent sessionStart), sessionCount + 1)"
| "session_loop (t # ts) sessionStart lastEvent (totalSessionMs, sessionCount) =
     (if ngt (nsub t lastEvent) (Some SESSION_GAP)
      then session_loop ts t t (nadd totalSessionMs (nsub lastEvent sessionStart), sessionCount + 1)
      else session_loop ts sessionStart t (totalSessionMs, sessionCount))"

text \<open>
  One iteration of the outer loop. \<open>times[0]\<close> of an empty array would be
  \<^verbatim>\<open>undefined\<close>, which makes the difference NaN; \<open>byUser\<close> never holds an empty array.
\<close>

definition user_sessions :: "string \<times> num list \<Rightarrow> num \<times> nat \<Rightarrow> num \<times> nat" where
  "user_sessions entry acc =
     (case js_sort (snd entry) of
        [] \<Rightarrow> session_loop [] None None acc
      | t0 # rest \<Rightarrow> session_loop rest t0 t0 acc)"

definition sessionTotals :: "RawEvent list \<Rightarrow> num \<times> nat" where
  "sessionTotals events = fold user_sessions (byUser events) (Some 0, 0)"

definition avgSessionLength :: "RawEvent list \<Rightarrow> rat option" where
  "avgSessionLength events =
     (case sessionTotals events of
        (totalSessionMs, sessionCount) \<Rightarrow>
          if sessionCount > 0
          then (case totalSessionMs of
                  None \<Rightarrow> None
                | Some ms \<Rightarrow> Some (of_int ms / of_nat sessionCount / 60000))
          else Some 0)"

subsection \<open>Churn\<close>

definition in_week_ago :: "int \<Rightarrow> RawEvent \<Rightarrow> bool" where
  "in_week_ago now e =
     (let t = created_at e
      in nge (nsub (Some now) t) (Some MS_7D) \<and> nlt (nsub (Some now) t) (Some MS_8D))"

definition activeWeekAgo :: "int \<Rightarrow> RawEvent list \<Rightarrow> string option list" where
  "activeWeekAgo now events = users_of (filter (in_week_ago now) events)"

definition churnedUsers :: "int \<Rightarrow> RawEvent list \<Rightarrow> string option list" where
  "churnedUsers now events =
     filter (\<lambda>uid. uid \<notin> set (activeLast24h now events)) (activeWeekAgo now events)"

subsection \<open>Day-1 retention\<close>

text \<open>
  \<open>firstVisitByUser\<close> is the object from identity to a number. \<^verbatim>\<open>!firstVisitByUser[id]\<close>
  holds when the key is absent and also when the stored number is NaN or 0.
\<close>

definition falsy_num :: "num \<Rightarrow> bool" where
  "falsy_num v = (case v of None \<Rightarrow> True | Some n \<Rightarrow> n = 0)"

definition firstVisit_step :: "RawEvent \<Rightarrow> (string \<times> num) list \<Rightarrow> (string \<times> num) list" where
  "firstVisit_step e fv =
     (case user_pseudo_id e of
        None \<Rightarrow> fv
      | Some uid \<Rightarrow>
          if event_name e = ''first_visit'' \<and> uid \<noteq> [] then
            let t = created_at e in
            if (case map_of fv uid of None \<Rightarrow> True | Some cur \<Rightarrow> falsy_num cur \<or> nlt t cur)
            then AList.update uid t fv
            else fv
          else fv)"

definition firstVisitByUser :: "RawEvent list \<Rightarrow> (string \<times> num) list" where
  "firstVisitByUser events = fold firstVisit_step events []"

definition hasReturn :: "RawEvent list \<Rightarrow> string \<Rightarrow> num \<Rightarrow> bool" where
  "hasReturn events uid firstTime =
     list_ex (\<lambda>e. user_pseudo_id e = Some uid
                 \<and> event_name e \<noteq> ''first_visit''
                 \<and> nge (created_at e) (nadd firstTime (Some MS_24H))
                 \<and> nlt (created_at e) (nadd firstTime (Some MS_48H))) events"

text \<open>One iteration over \<^verbatim>\<open>Object.entries(firstVisitByUser)\<close>: (eligibleDay1, returnedDay1).\<close>

definition day1_step :: "int \<Rightarrow> RawEvent list \<Rightarrow> string \<times> num \<Rightarrow> nat \<times> nat \<Rightarrow> nat \<times> nat" where
  "day1_step now events entry acc =
     (case entry of (uid, firstTime) \<Rightarrow>
      case acc of (eligibleDay1, returnedDay1) \<Rightarrow>
        if nlt (nsub (Some now) firstTime) (Some MS_24H) then acc
        else (eligibleDay1 + 1,
              if hasReturn events uid firstTime then returnedDay1 + 1 else returnedDay1))"

definition day1Counts :: "int \<Rightarrow> RawEvent list \<Rightarrow> nat \<times> nat" where
  "day1Counts now events = fold (day1_step now events) (firstVisitByUser events) (0, 0)"

subsection \<open>computeMetrics\<close>

definition count_name :: "string \<Rightarrow> RawEvent list \<Rightarrow> nat" where
  "count_name n events = length (filter (\<lambda>e. event_name e = n) events)"

definition count_rating :: "string \<Rightarrow> RawFeedback list \<Rightarrow> nat" where
  "count_rating r feedback = length (filter (\<lambda>f. rating f = r) feedback)"

definition computeMetrics :: "int \<Rightarrow> RawEvent list \<Rightarrow> RawFeedback list \<Rightarrow> RawPost list \<Rightarrow> Metrics" where
  "computeMetrics now events feedback posts =
     (let uniqueVisits' = length (allUsers events);
          activationRate' =
            (if uniqueVisits' > 0
             then of_nat (length (activatedUsers events)) / of_nat uniqueVisits' * 100 else 0);
          totalLikes' = foldl (\<lambda>s p. s + (case likes p of None \<Rightarrow> 0 | Some n \<Rightarrow> n)) 0 posts;
          totalShares' = count_name ''share_post'' events;
          totalViews =
            length (filter (\<lambda>e. event_name e \<in> set [''session_start'', ''first_visit'']) events);
          engagementRate' =
            (if totalViews > 0
             then of_int (totalLikes' + int totalShares') / of_nat totalViews * 100 else 0);
          weekAgo = length (activeWeekAgo now events);
          churnRate' =
            (if weekAgo > 0
             then of_nat (length (churnedUsers now events)) / of_nat weekAgo * 100 else 0);
          eligibleDay1 = fst (day1Counts now events);
          returnedDay1 = snd (day1Counts now events);
          day1Retention' =
            (if eligibleDay1 > 0 then of_nat returnedDay1 / of_nat eligibleDay1 * 100 else 0);
          viralCoefficient' =
            (if uniqueVisits' > 0 then of_nat totalShares' / of_nat uniqueVisits' else 0);
          totalFeedback' = length feedback;
          happyCount' = count_rating ''happy'' feedback;
          sadCount' = count_rating ''sad'' feedback;
          happyPct = (if totalFeedback' > 0 then of_nat happyCount' / of_nat totalFeedback' else 0);
          sadPct = (if totalFeedback' > 0 then of_nat sadCount' / of_nat totalFeedback' else 0);
          npsScore' = Math_round ((happyPct - sadPct) * 100)
      in \<lparr>uniqueVisits = uniqueVisits',
          activationRate = round1 activationRate',
          activationGoalMet = (activationRate' > 50),
          totalQrScans = count_name ''qr_scan'' events,
          dau = length (activeLast24h now events),
          totalPosts = length posts,
          totalLikes = totalLikes',
          totalShares = totalShares',
          engagementRate = round1 engagementRate',
          avgSessionLengthMin = map_option round1 (avgSessionLength events),
          churnRate = round1 churnRate',
          day1Retention = round1 day1Retention',
          viralCoefficient = round2 viralCoefficient',
          npsScore = npsScore',
          npsThresholdMet = (npsScore' > 40),
          happyCount = happyCount',
          normalCount = count_rating ''normal'' feedback,
          sadCount = sadCount',
          totalFeedback = totalFeedback'\<rparr>)"

subsection \<open>The metrics as the specification words them\<close>


text \<open>
  Session reconstruction after the specification: the parseable timestamps of one
  identity, sorted ascending, are split wherever the gap between two consecutive events
  exceeds the threshold; the duration of a session is its last minus its first event
  time.
\<close>

fun stamps :: "string \<Rightarrow> RawEvent list \<Rightarrow> int list" where
  "stamps u [] = []"
| "stamps u (e # es) =
     (case created_at e of
        None \<Rightarrow> stamps u es
      | Some t \<Rightarrow> if user_pseudo_id e = Some u then t # stamps u es else stamps u es)"






definition spec_t0 :: "string \<Rightarrow> RawEvent list \<Rightarrow> int" where
  "spec_t0 u events = min_list (stamps u (filter (\<lambda>e. event_name e = ''first_visit'') events))"

definition spec_returned :: "RawEvent list \<Rightarrow> string \<Rightarrow> bool" where
  "spec_returned events u =
     list_ex (\<lambda>e. user_pseudo_id e = Some u \<and> event_name e \<noteq> ''first_visit''
                 \<and> (case created_at e of
                       None \<Rightarrow> False
                     | Some t \<Rightarrow> spec_t0 u events + MS_24H \<le> t \<and> t < spec_t0 u events + MS_48H))
       events"

definition spec_day1Retention :: "int \<Rightarrow> RawEvent list \<Rightarrow> rat" where
  "spec_day1Retention now events =
     (let visitors = filter (\<lambda>u. stamps u (filter (\<lambda>e. event_name e = ''first_visit'') events) \<noteq> [])
                       (map the (allUsers events));
          eligible = filter (\<lambda>u. now - spec_t0 u events \<ge> MS_24H) visitors;
          returned = filter (spec_returned events) eligible
      in if eligible = [] then 0
         else round1 (of_nat (length returned) / of_nat (length eligible) * 100))"


subsection \<open>Example rows\<close>

definition mk_ev :: "string \<Rightarrow> string \<Rightarrow> num \<Rightarrow> RawEvent" where
  "mk_ev n u t = \<lparr>event_id = [], event_name = n, user_pseudo_id = Some u, created_at = t\<rparr>"












text \<open>
  With \<open>now = 360000000\<close>: identity a first visits at time 0 (the epoch) and again at
  90h, and has a row at 25h.
\<close>

definition day1_epoch_events :: "RawEvent list" where
  "day1_epoch_events =
     [mk_ev ''first_visit'' ''a'' (Some 0),
      mk_ev ''first_visit'' ''a'' (Some 324000000),
      mk_ev ''session_start'' ''a'' (Some 90000000)]"

subsection \<open>Example stores\<close>

definition st3 :: store where
  "st3 = \<lparr>sg_likes = None, sg_post_times = Some [0, 1, 2], sg_last_fetch = None\<rparr>"

section \<open>Fetch cooldown\<close>

text \<open>
  C9. For every store, \<open>canFetch\<close> is true exactly when at least 3000 ms lie between
  the stored last-fetch timestamp (0 when the key is absent) and now. Right after
  \<open>recordFetch\<close> at time \<open>now\<close> it is false, and at a later time \<open>now'\<close> it is true
  exactly when \<open>now' - now\<close> has reached the 3-second cooldown. \<open>recordFetch\<close>
  overwrites the one stored timestamp whatever it was, and touches no other key.
\<close>

theorem canFetch_cooldown:
  "canFetch now s = (now - (case sg_last_fetch s of None \<Rightarrow> 0 | Some t \<Rightarrow> t) \<ge> 3000)
   \<and> canFetch now (recordFetch now s) = False
   \<and> canFetch now' (recordFetch now s) = (now' - now \<ge> 3000)
   \<and> sg_last_fetch (recordFetch now s) = Some now
   \<and> sg_likes (recordFetch now s) = sg_likes s
   \<and> sg_post_times (recordFetch now s) = sg_post_times s"
  by (simp add: canFetch_def recordFetch_def getJSON_last_fetch_def FETCH_COOLDOWN_MS_def)

section \<open>Like policy\<close>

lemma getLikesGiven_recordLike_same:
  "getLikesGiven (snd (recordLike s p)) p =
     (if getLikesGiven s p < 5 then getLikesGiven s p + 1 else getLikesGiven s p)"
  by (simp add: recordLike_def canLikePost_def getLikesGiven_def getJSON_likes_def
      LIKE_LIMIT_PER_POST_def Let_def split: option.splits)

lemma getLikesGiven_recordLike_other:
  "p \<noteq> p' \<Longrightarrow> getLikesGiven (snd (recordLike s p)) p' = getLikesGiven s p'"
  by (simp add: recordLike_def canLikePost_def getLikesGiven_def getJSON_likes_def
      LIKE_LIMIT_PER_POST_def Let_def split: option.splits)

lemma getLikesGiven_like_attempts:
  "getLikesGiven s p \<le> 5 \<Longrightarrow> 0 \<le> getLikesGiven s p \<Longrightarrow>
   getLikesGiven (like_attempts s ps) p = min 5 (getLikesGiven s p + int (count_list ps p))"
proof (induction ps arbitrary: s)
  case Nil
  then show ?case by simp
next
  case (Cons q ps)
  show ?case
  proof (cases "q = p")
    case True
    have "getLikesGiven (snd (recordLike s p)) p \<le> 5" "0 \<le> getLikesGiven (snd (recordLike s p)) p"
      using Cons.prems by (simp_all add: getLikesGiven_recordLike_same)
    from Cons.IH[OF this] True Cons.prems show ?thesis
      by (auto simp add: getLikesGiven_recordLike_same)
  next
    case False
    have "getLikesGiven (snd (recordLike s q)) p \<le> 5" "0 \<le> getLikesGiven (snd (recordLike s q)) p"
      using Cons.prems False by (simp_all add: getLikesGiven_recordLike_other)
    from Cons.IH[OF this] False show ?thesis
      by (simp add: getLikesGiven_recordLike_other)
  qed
qed

lemma getLikesGiven_empty_store: "getLikesGiven empty_store p = 0"
  by (simp add: getLikesGiven_def getJSON_likes_def empty_store_def)

text \<open>
  C6. For every store and post, \<open>remainingLikes\<close> is \<open>max 0 (5 - given)\<close>. A
  \<open>recordLike\<close> at or beyond the ceiling returns failure and leaves the whole store as it
  was; below the ceiling it returns success and the counter of that post grows by exactly
  one. Hence after any sequence of like attempts from a fresh store the counter of a post
  is the number of attempts on it, capped at 5, and the remaining likes are
  \<open>max 0 (5 - attempts)\<close>.
\<close>

theorem like_policy:
  "remainingLikes s p = max 0 (5 - getLikesGiven s p)
   \<and> (if getLikesGiven s p < 5
      then fst (recordLike s p) = True
           \<and> getLikesGiven (snd (recordLike s p)) p = getLikesGiven s p + 1
      else recordLike s p = (False, s))
   \<and> getLikesGiven (like_attempts empty_store ps) p = min 5 (int (count_list ps p))
   \<and> remainingLikes (like_attempts empty_store ps) p = max 0 (5 - int (count_list ps p))"
proof -
  have a: "remainingLikes s p = max 0 (5 - getLikesGiven s p)" for s
    by (simp add: remainingLikes_def LIKE_LIMIT_PER_POST_def)
  have b: "(if getLikesGiven s p < 5
      then fst (recordLike s p) = True
           \<and> getLikesGiven (snd (recordLike s p)) p = getLikesGiven s p + 1
      else recordLike s p = (False, s))"
    by (simp add: getLikesGiven_recordLike_same)
      (simp add: recordLike_def canLikePost_def LIKE_LIMIT_PER_POST_def Let_def)
  have c: "getLikesGiven (like_attempts empty_store ps) p = min 5 (int (count_list ps p))"
    using getLikesGiven_like_attempts[of empty_store p ps]
    by (simp add: getLikesGiven_empty_store)
  have d: "remainingLikes (like_attempts empty_store ps) p = max 0 (5 - int (count_list ps p))"
    unfolding a c by simp
  from a b c d show ?thesis by blast
qed

theorem like_policy_witness:
  "getLikesGiven (like_attempts empty_store [''p1'', ''p2'', ''p1'', ''p1'', ''p1'', ''p1'', ''p1'']) ''p1'' = 5
   \<and> remainingLikes (like_attempts empty_store [''p1'', ''p2'', ''p1'', ''p1'', ''p1'', ''p1'', ''p1'']) ''p1'' = 0
   \<and> remainingLikes (like_attempts empty_store [''p1'', ''p2'', ''p1'']) ''p2'' = 4
   \<and> fst (recordLike empty_store ''p1'') = True"
  using like_policy[of empty_store "''p1''" "[''p1'', ''p2'', ''p1'', ''p1'', ''p1'', ''p1'', ''p1'']"]
    like_policy[of empty_store "''p2''" "[''p1'', ''p2'', ''p1'']"]
  by (simp add: getLikesGiven_empty_store del: like_attempts.simps)

text \<open>
  C10. For distinct posts \<open>p\<close> and \<open>p'\<close>, \<open>recordLike p\<close>, whether it succeeds or is
  rejected, leaves the likes given to \<open>p'\<close>, the stored post timestamps and the stored
  last-fetch timestamp unchanged.
\<close>

theorem recordLike_frame:
  "p \<noteq> p' \<Longrightarrow>
     getLikesGiven (snd (recordLike s p)) p' = getLikesGiven s p'
     \<and> sg_post_times (snd (recordLike s p)) = sg_post_times s
     \<and> sg_last_fetch (snd (recordLike s p)) = sg_last_fetch s"
  by (simp add: getLikesGiven_recordLike_other)
    (simp add: recordLike_def Let_def)

theorem recordLike_frame_witness:
  "getLikesGiven (snd (recordLike (recordPost 7 (recordFetch 9 empty_store)) ''p1'')) ''p2'' = 0
   \<and> sg_post_times (snd (recordLike (recordPost 7 (recordFetch 9 empty_store)) ''p1'')) = Some [7]
   \<and> sg_last_fetch (snd (recordLike (recordPost 7 (recordFetch 9 empty_store)) ''p1'')) = Some 9
   \<and> getLikesGiven (snd (recordLike (recordPost 7 (recordFetch 9 empty_store)) ''p1'')) ''p1'' = 1"
proof -
  have ne: "''p1'' \<noteq> ''p2''" by simp
  have base: "getLikesGiven (recordPost 7 (recordFetch 9 empty_store)) ''p2'' = 0"
    "sg_post_times (recordPost 7 (recordFetch 9 empty_store)) = Some [7]"
    "sg_last_fetch (recordPost 7 (recordFetch 9 empty_store)) = Some 9"
    by (simp_all add: getLikesGiven_def getJSON_likes_def recordPost_def recordFetch_def
        empty_store_def getRecentPostTimes_def getJSON_posts_def)
  have own: "getLikesGiven (snd (recordLike (recordPost 7 (recordFetch 9 empty_store)) ''p1'')) ''p1'' = 1"
    by (simp add: getLikesGiven_recordLike_same)
      (simp add: getLikesGiven_def getJSON_likes_def recordPost_def recordFetch_def empty_store_def)
  from recordLike_frame[OF ne, of "recordPost 7 (recordFetch 9 empty_store)"] base own
  show ?thesis by simp
qed

section \<open>Post-creation policy\<close>

lemma quot_rem_bounds:
  fixes w q r :: int
  assumes "- w = 1000 * q + r" "0 \<le> r" "r < 1000"
  shows "1000 * (- q - 1) < w" "w \<le> 1000 * (- q)"
  using assms by (simp_all add: algebra_simps)

lemma ceiling_div_1000:
  "1000 * (ceiling ((of_int w :: rat) / 1000) - 1) < w \<and> w \<le> 1000 * ceiling ((of_int w :: rat) / 1000)"
proof -
  have "ceiling ((of_int w :: rat) / of_int 1000) = - (- w div 1000)"
    by (rule ceiling_divide_eq_div)
  then have e: "ceiling ((of_int w :: rat) / 1000) = - (- w div 1000)" by simp
  have d: "- w = 1000 * (- w div 1000) + (- w mod 1000)" by simp
  have m: "0 \<le> - w mod 1000" "- w mod 1000 < 1000" by simp_all
  from quot_rem_bounds[OF d m] show ?thesis unfolding e ..
qed

text \<open>
  C5 (amended). \<open>canPost\<close> keeps exactly the stored timestamps younger than 10 minutes
  (\<open>now - 600000 < t\<close>); a timestamp exactly 10 minutes old is discarded. With fewer than
  3 survivors it answers allowed with \<open>waitSeconds = 0\<close>; otherwise it answers not
  allowed, and \<open>waitSeconds\<close> is the ceiling of
  \<open>(600000 - (now' - oldest survivor)) / 1000\<close>, \<open>now'\<close> being the second reading of the
  clock. No timestamp with \<open>now - t < 600000\<close> is ever pruned.
\<close>

theorem canPost_evaluation:
  "getRecentPostTimes now s = filter (\<lambda>t. now - 600000 < t) (getJSON_posts s)
   \<and> (if length (getRecentPostTimes now s) < 3
      then canPost now now' s = \<lparr>allowed = True, waitSeconds = 0\<rparr>
      else allowed (canPost now now' s) = False
         \<and> 1000 * (waitSeconds (canPost now now' s) - 1)
              < 600000 - (now' - Min (set (getRecentPostTimes now s)))
         \<and> 600000 - (now' - Min (set (getRecentPostTimes now s)))
              \<le> 1000 * waitSeconds (canPost now now' s))
   \<and> (\<forall>t \<in> set (getJSON_posts s). now - t < 600000 \<longrightarrow> t \<in> set (getRecentPostTimes now s))"
proof -
  have a: "getRecentPostTimes now s = filter (\<lambda>t. now - 600000 < t) (getJSON_posts s)"
    unfolding getRecentPostTimes_def POST_WINDOW_MS_def
    by (rule filter_cong) auto
  have b: "canPost now now' s = \<lparr>allowed = True, waitSeconds = 0\<rparr>"
    if "length (getRecentPostTimes now s) < 3"
    using that by (simp add: canPost_def POST_LIMIT_def)
  have c: "allowed (canPost now now' s) = False
         \<and> 1000 * (waitSeconds (canPost now now' s) - 1)
              < 600000 - (now' - Min (set (getRecentPostTimes now s)))
         \<and> 600000 - (now' - Min (set (getRecentPostTimes now s)))
              \<le> 1000 * waitSeconds (canPost now now' s)"
    if h: "\<not> length (getRecentPostTimes now s) < 3"
  proof -
    from h have ne: "getRecentPostTimes now s \<noteq> []" by auto
    have w: "waitSeconds (canPost now now' s)
        = ceiling ((of_int (600000 - (now' - Min (set (getRecentPostTimes now s)))) :: rat) / 1000)"
      using h by (simp add: canPost_def POST_LIMIT_def Let_def min_list_Min[OF ne] POST_WINDOW_MS_def)
    have al: "allowed (canPost now now' s) = False"
      using h by (simp add: canPost_def POST_LIMIT_def Let_def)
    show ?thesis unfolding w using al ceiling_div_1000 by blast
  qed
  have d: "\<forall>t \<in> set (getJSON_posts s). now - t < 600000 \<longrightarrow> t \<in> set (getRecentPostTimes now s)"
    by (simp add: getRecentPostTimes_def POST_WINDOW_MS_def)
  have bc: "if length (getRecentPostTimes now s) < 3
      then canPost now now' s = \<lparr>allowed = True, waitSeconds = 0\<rparr>
      else allowed (canPost now now' s) = False
         \<and> 1000 * (waitSeconds (canPost now now' s) - 1)
              < 600000 - (now' - Min (set (getRecentPostTimes now s)))
         \<and> 600000 - (now' - Min (set (getRecentPostTimes now s)))
              \<le> 1000 * waitSeconds (canPost now now' s)"
  proof (cases "length (getRecentPostTimes now s) < 3")
    case True
    from b[OF True] True show ?thesis by (simp only: if_True)
  next
    case False
    from c[OF False] False show ?thesis by (simp only: if_False)
  qed
  from a bc d show ?thesis by (intro conjI)
qed

text \<open>
  The specification as worded discards only timestamps older than \<open>now - 10 min\<close>. With stored
  timestamps 0, 1, 2 and \<open>now = 600000\<close> the code drops the timestamp 0, which is not
  older than \<open>now - 10 min\<close>, and allows the post; the worded evaluation keeps all three
  and refuses.
\<close>

theorem canPost_boundary_counterexample:
  "getRecentPostTimes 600000 st3 = [1, 2]
   \<and> spec_prune 600000 (getJSON_posts st3) = [0, 1, 2]
   \<and> allowed (canPost 600000 600000 st3) = True
   \<and> allowed (spec_canPost 600000 (getJSON_posts st3)) = False"
  by (simp add: st3_def getRecentPostTimes_def getJSON_posts_def spec_prune_def canPost_def
      spec_canPost_def POST_WINDOW_MS_def POST_LIMIT_def Let_def)

theorem canPost_evaluation_witness:
  "getRecentPostTimes 600001 st3 = [2]
   \<and> canPost 600001 600001 st3 = \<lparr>allowed = True, waitSeconds = 0\<rparr>
   \<and> allowed (canPost 500000 500500 st3) = False
   \<and> waitSeconds (canPost 500000 500500 st3) = 100"
proof -
  have r: "getRecentPostTimes 600001 st3 = [2]" "getRecentPostTimes 500000 st3 = [0, 1, 2]"
    by (simp_all add: st3_def getRecentPostTimes_def getJSON_posts_def POST_WINDOW_MS_def)
  have m: "Min (set [0, 1, 2 :: int]) = 0" by simp
  have A: "canPost 600001 600001 st3 = \<lparr>allowed = True, waitSeconds = 0\<rparr>"
    using canPost_evaluation[of 600001 st3 600001, THEN conjunct2, THEN conjunct1]
    unfolding r by simp
  have B: "allowed (canPost 500000 500500 st3) = False
      \<and> 1000 * (waitSeconds (canPost 500000 500500 st3) - 1) < 99500
      \<and> 99500 \<le> 1000 * waitSeconds (canPost 500000 500500 st3)"
    using canPost_evaluation[of 500000 st3 500500, THEN conjunct2, THEN conjunct1]
    unfolding r m by simp
  then have "waitSeconds (canPost 500000 500500 st3) = 100" by simp
  with r A B show ?thesis by simp
qed

section \<open>The stored post timestamps under sequences of operations\<close>

lemma allowed_canPost:
  "allowed (canPost now now' s) = (length (getRecentPostTimes now s) < 3)"
  by (simp add: canPost_def POST_LIMIT_def Let_def)

lemma getJSON_posts_recordPost:
  "getJSON_posts (recordPost now s) = getRecentPostTimes now s @ [now]"
  by (simp add: recordPost_def getJSON_posts_def)

lemma length_recent_mono:
  "t \<le> now \<Longrightarrow> length (getRecentPostTimes now s) \<le> length (getRecentPostTimes t s)"
proof -
  assume le: "t \<le> now"
  have "getRecentPostTimes now s
      = filter (\<lambda>x. now - x < POST_WINDOW_MS) (getRecentPostTimes t s)"
    unfolding getRecentPostTimes_def filter_filter
    by (rule filter_cong) (use le in auto)
  then show ?thesis by (metis length_filter_le)
qed








text \<open>
  The same discipline bounds the whole history, not only what is still stored: when the
  clock never decreases along the run, no 10-minute window holds more than 3 of all the
  timestamps ever recorded.
\<close>

lemma recent_filter_mono:
  assumes "c \<le> c'"
    and "filter (\<lambda>x. c - x < POST_WINDOW_MS) xs = filter (\<lambda>x. c - x < POST_WINDOW_MS) ys"
  shows "filter (\<lambda>x. c' - x < POST_WINDOW_MS) xs = filter (\<lambda>x. c' - x < POST_WINDOW_MS) ys"
proof -
  have e: "filter (\<lambda>x. c' - x < POST_WINDOW_MS) zs
      = filter (\<lambda>x. c' - x < POST_WINDOW_MS) (filter (\<lambda>x. c - x < POST_WINDOW_MS) zs)" for zs
    unfolding filter_filter by (rule filter_cong) (use assms(1) in auto)
  show ?thesis by (subst e, subst (2) e) (simp only: assms(2))
qed

lemma in_window_append: "in_window a (xs @ ys) = in_window a xs @ in_window a ys"
  by (simp add: in_window_def)

lemma in_window_recent:
  assumes "a \<le> now" "now < a + POST_WINDOW_MS"
  shows "length (in_window a hist) \<le> length (filter (\<lambda>x. now - x < POST_WINDOW_MS) hist)"
proof -
  have e: "in_window a hist = in_window a (filter (\<lambda>x. now - x < POST_WINDOW_MS) hist)"
    unfolding in_window_def filter_filter
    by (rule filter_cong) (use assms in auto)
  have l: "length (in_window a zs) \<le> length zs" for zs
    by (simp add: in_window_def)
  show ?thesis by (subst e) (rule l)
qed

lemma history_window_gen:
  "checked s g ops \<Longrightarrow> clock_ok c ops \<Longrightarrow>
   filter (\<lambda>x. c - x < POST_WINDOW_MS) (getJSON_posts s)
     = filter (\<lambda>x. c - x < POST_WINDOW_MS) hist \<Longrightarrow>
   (case g of None \<Rightarrow> True | Some t \<Rightarrow> t \<le> c \<and> length (getRecentPostTimes t s) < 3) \<Longrightarrow>
   (\<And>a. length (in_window a hist) \<le> 3) \<Longrightarrow>
   length (in_window a (hist @ recorded ops)) \<le> 3"
proof (induction s g ops arbitrary: c hist a rule: checked.induct)
  case (1 s g)
  then show ?case by simp
next
  case (2 s g now now' ops)
  from "2.prems"(2) have c: "c \<le> now" "now \<le> now'" and ck: "clock_ok now' ops" by simp_all
  from c have cc: "c \<le> now'" by simp
  have J: "filter (\<lambda>x. now' - x < POST_WINDOW_MS) (getJSON_posts s)
     = filter (\<lambda>x. now' - x < POST_WINDOW_MS) hist"
    by (rule recent_filter_mono[OF cc "2.prems"(3)])
  have G: "case (if allowed (canPost now now' s) then Some now else None) of None \<Rightarrow> True
      | Some t \<Rightarrow> t \<le> now' \<and> length (getRecentPostTimes t s) < 3"
    using c by (simp add: allowed_canPost)
  from "2.prems"(1) have ch: "checked s (if allowed (canPost now now' s) then Some now else None) ops"
    by simp
  from "2.IH"[OF ch ck J G "2.prems"(5)] show ?case by simp
next
  case (3 s g now ops)
  from "3.prems"(1) obtain t where g: "g = Some t" and le: "t \<le> now"
    and ch: "checked (recordPost now s) None ops"
    by (auto split: option.splits)
  from "3.prems"(2) have c: "c \<le> now" and ck: "clock_ok now ops" by simp_all
  from "3.prems"(4) g have lt: "length (getRecentPostTimes t s) < 3" by simp
  with length_recent_mono[OF le, of s] have lt': "length (getRecentPostTimes now s) < 3" by simp
  have Jn: "filter (\<lambda>x. now - x < POST_WINDOW_MS) (getJSON_posts s)
     = filter (\<lambda>x. now - x < POST_WINDOW_MS) hist"
    by (rule recent_filter_mono[OF c "3.prems"(3)])
  have J: "filter (\<lambda>x. now - x < POST_WINDOW_MS) (getJSON_posts (recordPost now s))
     = filter (\<lambda>x. now - x < POST_WINDOW_MS) (hist @ [now])"
    using Jn by (simp add: getJSON_posts_recordPost getRecentPostTimes_def POST_WINDOW_MS_def)
  have W: "length (in_window b (hist @ [now])) \<le> 3" for b
  proof (cases "b \<le> now \<and> now < b + POST_WINDOW_MS")
    case True
    then have "length (in_window b hist) \<le> length (filter (\<lambda>x. now - x < POST_WINDOW_MS) hist)"
      by (intro in_window_recent) simp_all
    also have "\<dots> = length (getRecentPostTimes now s)"
      by (simp only: Jn[symmetric] getRecentPostTimes_def)
    finally have "length (in_window b hist) < 3" using lt' by simp
    then show ?thesis by (simp add: in_window_append) (simp add: in_window_def)
  next
    case False
    then have "in_window b [now] = []" by (auto simp: in_window_def)
    then show ?thesis using "3.prems"(5)[of b] by (simp add: in_window_append)
  qed
  from "3.IH"[OF g ch ck J _ W, of a] show ?case by simp
qed

theorem checked_history_window:
  "checked empty_store None ops \<Longrightarrow> clock_ok c ops \<Longrightarrow>
   length (in_window a (recorded ops)) \<le> 3"
  using history_window_gen[of empty_store None ops c "[]" a]
  by (simp add: getJSON_posts_def empty_store_def in_window_def)

section \<open>Identities and rates of the Aggregator\<close>




















section \<open>Churn rate\<close>








section \<open>Session reconstruction\<close>

subsection \<open>The sort on parsed timestamps\<close>






subsection \<open>The loop against the split into sessions\<close>




subsection \<open>Grouping by identity\<close>









subsection \<open>Permutations of the input\<close>








subsection \<open>The accumulated totals\<close>










section \<open>Rows with unparseable timestamps\<close>












section \<open>Day-1 retention\<close>

subsection \<open>The earliest first visit\<close>






lemma fold_snoc: "fold f (xs @ [x]) a = f x (fold f xs a)"
  by simp




subsection \<open>Eligible and returned identities\<close>









text \<open>
  Outside the hypothesis: a stored first time of 0 reads as absent, so a later visit
  overwrites it and the earliest visit is lost.
\<close>

lemma day1_epoch_overwritten:
  "firstVisitByUser day1_epoch_events = [(''a'', Some 324000000)]
   \<and> day1Retention (computeMetrics 360000000 day1_epoch_events [] []) = 0
   \<and> spec_day1Retention 360000000 day1_epoch_events = 100"
  by code_simp

end
